theory Spec2Isabelle
  imports Main "HOL-Library.Sublist" "HOL-Library.Multiset"
    "HOL-Library.List_Lexorder" "HOL-Library.Product_Lexorder"
begin

section \<open>Python strings\<close>

text \<open>
  A Python \<open>str\<close> is a sequence of Unicode code points; it is modelled as a list of
  natural numbers, one per code point. The labels of \<open>twse_scraper.py\<close> are Chinese
  text and are written here by their code points.
\<close>

type_synonym ustr = "nat list"

definition ascii :: "string \<Rightarrow> ustr" where
  "ascii s = map of_char s"

text \<open>The characters \<open>str.strip()\<close> removes: those for which \<open>str.isspace\<close> holds.\<close>

definition is_space :: "nat \<Rightarrow> bool" where
  "is_space c =
     ((9 \<le> c \<and> c \<le> 13) \<or> (28 \<le> c \<and> c \<le> 32) \<or> c = 0x85 \<or> c = 0xA0 \<or> c = 0x1680
      \<or> (0x2000 \<le> c \<and> c \<le> 0x200A) \<or> c = 0x2028 \<or> c = 0x2029 \<or> c = 0x202F
      \<or> c = 0x205F \<or> c = 0x3000)"

definition lstrip :: "ustr \<Rightarrow> ustr" where
  "lstrip s = dropWhile is_space s"

definition rstrip :: "ustr \<Rightarrow> ustr" where
  "rstrip s = rev (dropWhile is_space (rev s))"

definition strip :: "ustr \<Rightarrow> ustr" where
  "strip s = rstrip (lstrip s)"

text \<open>\<open>s.split(d)\<close> for a one-character separator: never an empty list.\<close>

fun split_on :: "nat \<Rightarrow> ustr \<Rightarrow> ustr list" where
  "split_on d [] = [[]]"
| "split_on d (c # cs) =
     (if c = d then [] # split_on d cs
      else case split_on d cs of [] \<Rightarrow> [[c]] | l # ls \<Rightarrow> (c # l) # ls)"

text \<open>\<open>sub in s\<close>: \<open>sub\<close> occurs in \<open>s\<close> as a contiguous run.\<close>

fun py_in :: "ustr \<Rightarrow> ustr \<Rightarrow> bool" where
  "py_in sub [] = (sub = [])"
| "py_in sub (c # cs) = (prefix sub (c # cs) \<or> py_in sub cs)"

text \<open>\<open>s.replace(x, '')\<close> for a one-character \<open>x\<close>.\<close>

definition remove_chr :: "nat \<Rightarrow> ustr \<Rightarrow> ustr" where
  "remove_chr x s = filter (\<lambda>c. c \<noteq> x) s"

text \<open>\<open>"\n".join(ls)\<close>.\<close>

fun join_nl :: "ustr list \<Rightarrow> ustr" where
  "join_nl [] = []"
| "join_nl [l] = l"
| "join_nl (l # m # ls) = l @ 10 # join_nl (m # ls)"

text \<open>\<open>str(n)\<close> for an integer, and zero padding to a width.\<close>

fun str_nat :: "nat \<Rightarrow> ustr" where
  "str_nat n = (if n < 10 then [48 + n] else str_nat (n div 10) @ [48 + n mod 10])"

declare str_nat.simps [simp del]

definition str_int :: "int \<Rightarrow> ustr" where
  "str_int i = (if i < 0 then 45 # str_nat (nat (- i)) else str_nat (nat i))"

definition zero_pad :: "nat \<Rightarrow> nat \<Rightarrow> ustr" where
  "zero_pad w n = replicate (w - length (str_nat n)) 48 @ str_nat n"

fun first_index :: "('a \<Rightarrow> bool) \<Rightarrow> 'a list \<Rightarrow> nat option" where
  "first_index P [] = None"
| "first_index P (x # xs) = (if P x then Some 0 else map_option Suc (first_index P xs))"

section \<open>Exceptions\<close>

datatype error =
    IndexError | KeyError | ValueError | TypeError | AttributeError | OSError
  | CsvError | ParserError

section \<open>The \<open>csv\<close> reader\<close>

text \<open>
  \<open>list(csv.reader(io.StringIO(line)))[0]\<close> with the default dialect (delimiter
  \<open>,\<close>, quote character \<open>"\<close>, doubled quotes, not strict, no escape character):
  the state machine of the \<open>csv\<close> module, fed the characters of the one line and then
  the end-of-line mark (\<open>None\<close> here). A field longer than the field limit is an error,
  and so is a character other than a line break after a carriage return.
\<close>

datatype csv_state =
  START_RECORD | START_FIELD | IN_FIELD | IN_QUOTED_FIELD | QUOTE_IN_QUOTED_FIELD | EAT_CRNL

record reader =
  state :: csv_state
  field :: ustr
  fieldlist :: "ustr list"

definition field_limit :: nat where
  "field_limit = 131072"

definition parse_save_field :: "reader \<Rightarrow> reader" where
  "parse_save_field r = r\<lparr>fieldlist := fieldlist r @ [field r], field := []\<rparr>"

definition parse_add_char :: "reader \<Rightarrow> nat \<Rightarrow> error + reader" where
  "parse_add_char r c =
     (if field_limit \<le> length (field r) then Inl CsvError
      else Inr (r\<lparr>field := field r @ [c]\<rparr>))"

definition is_eol :: "nat option \<Rightarrow> bool" where
  "is_eol c = (c = None \<or> c = Some 10 \<or> c = Some 13)"

definition after_eol :: "nat option \<Rightarrow> csv_state" where
  "after_eol c = (if c = None then START_RECORD else EAT_CRNL)"

definition start_field :: "reader \<Rightarrow> nat option \<Rightarrow> error + reader" where
  "start_field r c =
     (if is_eol c then Inr ((parse_save_field r)\<lparr>state := after_eol c\<rparr>)
      else if c = Some 34 then Inr (r\<lparr>state := IN_QUOTED_FIELD\<rparr>)
      else if c = Some 44 then Inr ((parse_save_field r)\<lparr>state := START_FIELD\<rparr>)
      else case c of
        None \<Rightarrow> Inr r
      | Some x \<Rightarrow> map_sum id (\<lambda>r'. r'\<lparr>state := IN_FIELD\<rparr>) (parse_add_char r x))"

definition parse_process_char :: "reader \<Rightarrow> nat option \<Rightarrow> error + reader" where
  "parse_process_char r c =
     (case state r of
        START_RECORD \<Rightarrow>
          (if c = None then Inr r
           else if c = Some 10 \<or> c = Some 13 then Inr (r\<lparr>state := EAT_CRNL\<rparr>)
           else start_field r c)
      | START_FIELD \<Rightarrow> start_field r c
      | IN_FIELD \<Rightarrow>
          (if is_eol c then Inr ((parse_save_field r)\<lparr>state := after_eol c\<rparr>)
           else if c = Some 44 then Inr ((parse_save_field r)\<lparr>state := START_FIELD\<rparr>)
           else case c of None \<Rightarrow> Inr r | Some x \<Rightarrow> parse_add_char r x)
      | IN_QUOTED_FIELD \<Rightarrow>
          (case c of
             None \<Rightarrow> Inr r
           | Some x \<Rightarrow>
               if x = 34 then Inr (r\<lparr>state := QUOTE_IN_QUOTED_FIELD\<rparr>)
               else parse_add_char r x)
      | QUOTE_IN_QUOTED_FIELD \<Rightarrow>
          (if c = Some 34
           then map_sum id (\<lambda>r'. r'\<lparr>state := IN_QUOTED_FIELD\<rparr>) (parse_add_char r 34)
           else if c = Some 44 then Inr ((parse_save_field r)\<lparr>state := START_FIELD\<rparr>)
           else if is_eol c then Inr ((parse_save_field r)\<lparr>state := after_eol c\<rparr>)
           else case c of
             None \<Rightarrow> Inr r
           | Some x \<Rightarrow> map_sum id (\<lambda>r'. r'\<lparr>state := IN_FIELD\<rparr>) (parse_add_char r x))
      | EAT_CRNL \<Rightarrow>
          (if c = Some 10 \<or> c = Some 13 then Inr r
           else if c = None then Inr (r\<lparr>state := START_RECORD\<rparr>)
           else Inl CsvError))"

fun process_line :: "reader \<Rightarrow> ustr \<Rightarrow> error + reader" where
  "process_line r [] = parse_process_char r None"
| "process_line r (c # cs) =
     (case parse_process_char r (Some c) of
        Inl e \<Rightarrow> Inl e
      | Inr r' \<Rightarrow> process_line r' cs)"

text \<open>
  The first record of the reader over a text of one line. An empty text has no line and
  so no record: indexing the empty list raises. A record still open at the end of the input
  (inside a quoted field) is closed there.
\<close>

definition csv_first_row :: "ustr \<Rightarrow> error + ustr list" where
  "csv_first_row line =
     (if line = [] then Inl IndexError
      else case process_line \<lparr>state = START_RECORD, field = [], fieldlist = []\<rparr> line of
        Inl e \<Rightarrow> Inl e
      | Inr r \<Rightarrow>
          if state r = START_RECORD then Inr (fieldlist r)
          else Inr (fieldlist (parse_save_field r)))"

section \<open>Tables\<close>

text \<open>
  A cell of a \<open>DataFrame\<close> is a string, an integer or a timestamp at midnight (year, month,
  day); a missing value (\<open>NaN\<close>, \<open>None\<close>, \<open>NaT\<close>) is the absence of a cell. A row maps
  column labels to cells, and a table is its column labels, in order, with its rows, in
  order. Numbers with a fractional part are outside this model, and so are frames that carry
  one label on two columns: a row holds one cell per label.
\<close>

datatype cell = Str ustr | Num int | Ts nat nat nat

type_synonym row = "ustr \<Rightarrow> cell option"

record table =
  columns :: "ustr list"
  rows :: "row list"

definition empty_df :: table where
  "empty_df = \<lparr>columns = [], rows = []\<rparr>"

text \<open>\<open>df.empty\<close>: an axis of length zero.\<close>

definition df_empty :: "table \<Rightarrow> bool" where
  "df_empty T = (columns T = [] \<or> rows T = [])"

text \<open>\<open>astype(str)\<close> on a cell that is present.\<close>

fun astype_str :: "cell \<Rightarrow> ustr" where
  "astype_str (Str s) = s"
| "astype_str (Num n) = str_int n"
| "astype_str (Ts y m d) = zero_pad 4 y @ 45 # zero_pad 2 m @ 45 # zero_pad 2 d"

text \<open>
  \<open>pd.read_csv(io.StringIO(text), thousands=',')\<close> and the conversion of one string by
  \<open>pd.to_numeric(..., errors='coerce')\<close> are library routines: the functions below take
  them as a parameter, and every statement about them holds whatever the two return.
\<close>

record pandas =
  read_csv :: "ustr \<Rightarrow> error + table"
  to_numeric :: "ustr \<Rightarrow> cell option"

definition and_then :: "error + 'a \<Rightarrow> ('a \<Rightarrow> error + 'b) \<Rightarrow> error + 'b" where
  "and_then x f = (case x of Inl e \<Rightarrow> Inl e | Inr v \<Rightarrow> f v)"

text \<open>
  Setting \<open>df.columns\<close> to the labels mapped by \<open>f\<close> (also \<open>df.rename(columns=...)\<close>):
  the cell under a new label is the cell of the first column that is given this label.
\<close>

definition rename_columns :: "(ustr \<Rightarrow> ustr) \<Rightarrow> table \<Rightarrow> table" where
  "rename_columns f T =
     \<lparr>columns = map f (columns T),
      rows = map (\<lambda>r c'. case find (\<lambda>c. f c = c') (columns T) of
                           None \<Rightarrow> None | Some c \<Rightarrow> r c) (rows T)\<rparr>"

text \<open>\<open>df[[c1, c2, ...]]\<close> for labels that are columns of \<open>df\<close>.\<close>

definition select_columns :: "ustr list \<Rightarrow> table \<Rightarrow> table" where
  "select_columns cs T = \<lparr>columns = cs, rows = map (\<lambda>r. r |` set cs) (rows T)\<rparr>"

text \<open>
  \<open>df[c].astype(str).str\<close>: a \<open>KeyError\<close> when \<open>c\<close> is no column; when two columns carry
  the label, \<open>df[c]\<close> is a frame, which has no \<open>str\<close> accessor.
\<close>

definition str_column :: "table \<Rightarrow> ustr \<Rightarrow> error + unit" where
  "str_column T c =
     (if c \<notin> set (columns T) then Inl KeyError
      else if 1 < count_list (columns T) c then Inl AttributeError
      else Inr ())"

section \<open>Labels of the source\<close>

definition id_col :: ustr where
  "id_col = [0x8B49, 0x5238, 0x4EE3, 0x865F]"

definition name_col :: ustr where
  "name_col = [0x8B49, 0x5238, 0x540D, 0x7A31]"

definition total_mark :: ustr where
  "total_mark = [0x8A08]"

definition share_mark :: ustr where
  "share_mark = [0x80A1, 0x6578]"

definition date_col :: ustr where
  "date_col = [0x65E5, 0x671F]"

definition src_foreign :: ustr where
  "src_foreign = [0x5916, 0x8CC7]"

definition src_trust :: ustr where
  "src_trust = [0x6295, 0x4FE1]"

definition src_dealer :: ustr where
  "src_dealer = [0x81EA, 0x71DF, 0x5546]"

definition buy_shares :: ustr where
  "buy_shares = [0x8CB7, 0x9032, 0x80A1, 0x6578]"

definition sell_shares :: ustr where
  "sell_shares = [0x8CE3, 0x51FA, 0x80A1, 0x6578]"

definition net_shares :: ustr where
  "net_shares = [0x8CB7, 0x8CE3, 0x8D85, 0x80A1, 0x6578]"

definition grp_foreign :: ustr where
  "grp_foreign = [0x5916, 0x8CC7, 0x53CA, 0x9678, 0x8CC7]"

definition grp_dealer_self :: ustr where
  "grp_dealer_self = [0x81EA, 0x71DF, 0x5546, 0x28, 0x81EA, 0x884C, 0x8CB7, 0x8CE3, 0x29]"

definition grp_dealer_hedge :: ustr where
  "grp_dealer_hedge = [0x81EA, 0x71DF, 0x5546, 0x28, 0x907F, 0x96AA, 0x29]"

definition dealer_self :: ustr where
  "dealer_self = [0x81EA, 0x71DF, 0x5546, 0x5F, 0x81EA, 0x884C, 0x8CB7, 0x8CE3, 0x5F]"

definition dealer_hedge :: ustr where
  "dealer_hedge = [0x81EA, 0x71DF, 0x5546, 0x5F, 0x907F, 0x96AA, 0x5F]"

definition tpex_id :: ustr where
  "tpex_id = [0x4EE3, 0x865F]"

definition tpex_name :: ustr where
  "tpex_name = [0x540D, 0x7A31]"

definition unit_suffix :: ustr where
  "unit_suffix = [0x28, 0x80A1, 0x29]"

definition listed :: ustr where
  "listed = [0x4E0A, 0x5E02]"

section \<open>\<open>parse_twse_csv\<close>\<close>

text \<open>The non-blank lines of the stripped text (line 59).\<close>

definition twse_lines :: "ustr \<Rightarrow> ustr list" where
  "twse_lines csv_content =
     filter (\<lambda>line. strip line \<noteq> []) (split_on 10 (strip csv_content))"

text \<open>\<open>.strip().replace('=', '').replace('"', '')\<close> on a header label.\<close>

definition clean_label :: "ustr \<Rightarrow> ustr" where
  "clean_label s = remove_chr 34 (remove_chr 61 (strip s))"

subsection \<open>The investment trust table: one header line (lines 70 to 73)\<close>

definition trust_rename :: "ustr \<Rightarrow> ustr" where
  "trust_rename c =
     (if c = buy_shares \<or> c = sell_shares \<or> c = net_shares then src_trust @ 0x5F # c else c)"

definition trust_frame :: "pandas \<Rightarrow> ustr list \<Rightarrow> nat \<Rightarrow> error + table" where
  "trust_frame pd lines h =
     and_then (read_csv pd (join_nl (drop h lines)))
       (\<lambda>df. Inr (rename_columns trust_rename (rename_columns clean_label df)))"

subsection \<open>The foreign investor and dealer tables: two header lines (lines 74 to 106)\<close>

fun csv_rows :: "ustr list \<Rightarrow> error + ustr list list" where
  "csv_rows [] = Inr []"
| "csv_rows (l # ls) =
     and_then (csv_first_row l) (\<lambda>r. and_then (csv_rows ls) (\<lambda>rs. Inr (r # rs)))"

text \<open>
  The loop of lines 83 to 87, index \<open>i\<close> running over both header lines at once:
  \<open>cur\<close> is \<open>current_top_level\<close>; the second header line being too short is an
  \<open>IndexError\<close>.
\<close>

fun build_columns :: "ustr \<Rightarrow> ustr list \<Rightarrow> ustr list \<Rightarrow> error + (ustr \<times> ustr) list" where
  "build_columns cur [] h2 = Inr []"
| "build_columns cur (t # ts) [] = Inl IndexError"
| "build_columns cur (t # ts) (s # ss) =
     (let top_level = clean_label t;
          cur' = (if top_level \<noteq> [] then top_level else cur)
      in and_then (build_columns cur' ts ss) (\<lambda>cols. Inr ((cur', clean_label s) # cols)))"

text \<open>
  \<open>pd.DataFrame(data_rows, columns=pd.MultiIndex.from_tuples(columns))\<close>: no levels can be
  read off an empty list of keys (\<open>TypeError\<close>); the rows are padded with missing values to
  the longest of them, and that width must be the number of keys (\<open>ValueError\<close>). The frame
  is kept as its keys and the rows of fields.
\<close>

definition multi_frame :: "ustr list list \<Rightarrow> (ustr \<times> ustr) list \<Rightarrow> error + unit" where
  "multi_frame data cols =
     (if cols = [] then Inl TypeError
      else if data \<noteq> [] \<and> foldr max (map length data) 0 \<noteq> length cols then Inl ValueError
      else Inr ())"

text \<open>
  \<open>df_multi[key]\<close> as it is assigned to a column of \<open>df\<close>: a \<open>KeyError\<close> for an unknown
  key; a key that two columns carry selects a frame, which cannot be assigned to one column
  (\<open>ValueError\<close>); otherwise the column at the key's position, a field a short row lacks
  being missing.
\<close>

definition multi_getitem ::
  "(ustr \<times> ustr) list \<Rightarrow> ustr list list \<Rightarrow> ustr \<times> ustr \<Rightarrow> error + cell option list" where
  "multi_getitem cols data key =
     (case first_index (\<lambda>k. k = key) cols of
        None \<Rightarrow> Inl KeyError
      | Some i \<Rightarrow>
          if 1 < count_list cols key then Inl ValueError
          else Inr (map (\<lambda>fs. if i < length fs then Some (Str (fs ! i)) else None) data))"

text \<open>
  \<open>df = pd.DataFrame()\<close> followed by assignments \<open>df[c] = series\<close>: the first
  assignment gives the frame the rows of the series, so the empty frame is started with
  one row without cells per data row.
\<close>

definition new_frame :: "nat \<Rightarrow> table" where
  "new_frame n = \<lparr>columns = [], rows = replicate n (\<lambda>c. None)\<rparr>"

definition setitem :: "table \<Rightarrow> ustr \<Rightarrow> cell option list \<Rightarrow> table" where
  "setitem T c vs =
     \<lparr>columns = (if c \<in> set (columns T) then columns T else columns T @ [c]),
      rows = map (\<lambda>(r, v). r(c := v)) (zip (rows T) vs)\<rparr>"

fun assign_fields ::
  "(ustr \<times> ustr) list \<Rightarrow> ustr list list \<Rightarrow> (ustr \<times> ustr \<times> ustr) list \<Rightarrow> table
     \<Rightarrow> error + table" where
  "assign_fields cols data [] T = Inr T"
| "assign_fields cols data ((out, key) # fs) T =
     and_then (multi_getitem cols data key)
       (\<lambda>vs. assign_fields cols data fs (setitem T out vs))"

text \<open>The lookups of lines 93 to 106: output label, then the (group, sub) key.\<close>

definition base_fields :: "(ustr \<times> ustr \<times> ustr) list" where
  "base_fields = [(id_col, id_col, id_col), (name_col, name_col, name_col)]"

definition foreign_fields :: "(ustr \<times> ustr \<times> ustr) list" where
  "foreign_fields =
     [(src_foreign @ 0x5F # buy_shares, grp_foreign, buy_shares),
      (src_foreign @ 0x5F # sell_shares, grp_foreign, sell_shares),
      (src_foreign @ 0x5F # net_shares, grp_foreign, net_shares)]"

definition dealer_fields :: "(ustr \<times> ustr \<times> ustr) list" where
  "dealer_fields =
     [(dealer_self @ buy_shares, grp_dealer_self, buy_shares),
      (dealer_self @ sell_shares, grp_dealer_self, sell_shares),
      (dealer_self @ net_shares, grp_dealer_self, net_shares),
      (dealer_hedge @ buy_shares, grp_dealer_hedge, buy_shares),
      (dealer_hedge @ sell_shares, grp_dealer_hedge, sell_shares),
      (dealer_hedge @ net_shares, grp_dealer_hedge, net_shares)]"

definition source_fields :: "ustr \<Rightarrow> (ustr \<times> ustr \<times> ustr) list" where
  "source_fields name =
     base_fields @
     (if name = src_foreign then foreign_fields
      else if name = src_dealer then dealer_fields else [])"

definition two_level_frame :: "ustr list \<Rightarrow> nat \<Rightarrow> ustr \<Rightarrow> error + table" where
  "two_level_frame lines h name =
     and_then (csv_first_row (lines ! h)) (\<lambda>header_line_1.
     and_then (if h + 1 < length lines then csv_first_row (lines ! (h + 1)) else Inl IndexError)
       (\<lambda>header_line_2.
     and_then (csv_rows (drop (h + 2) lines)) (\<lambda>data_rows.
     and_then (build_columns [] header_line_1 header_line_2) (\<lambda>cols.
     and_then (multi_frame data_rows cols) (\<lambda>_.
       assign_fields cols data_rows (source_fields name) (new_frame (length data_rows)))))))"

subsection \<open>Row filtering and numeric columns (lines 108 to 116)\<close>

definition drop_totals :: "ustr \<Rightarrow> table \<Rightarrow> table" where
  "drop_totals c T =
     T\<lparr>rows := filter (\<lambda>r. case r c of None \<Rightarrow> True
                                | Some v \<Rightarrow> \<not> py_in total_mark (astype_str v)) (rows T)\<rparr>"

definition dropna_subset :: "ustr \<Rightarrow> table \<Rightarrow> table" where
  "dropna_subset c T = T\<lparr>rows := filter (\<lambda>r. r c \<noteq> None) (rows T)\<rparr>"

definition strip_column :: "ustr \<Rightarrow> table \<Rightarrow> table" where
  "strip_column c T =
     T\<lparr>rows := map (\<lambda>r. case r c of None \<Rightarrow> r
                             | Some v \<Rightarrow> r(c \<mapsto> Str (strip (astype_str v)))) (rows T)\<rparr>"

text \<open>
  One round of the loop of lines 112 to 114. A missing cell prints as a word that is no
  number and is coerced to a missing value again: it stays missing.
\<close>

definition numeric_column :: "pandas \<Rightarrow> ustr \<Rightarrow> table \<Rightarrow> table" where
  "numeric_column pd col T =
     (if py_in share_mark col
      then T\<lparr>rows := map (\<lambda>r. r(col := (case r col of None \<Rightarrow> None
                | Some v \<Rightarrow> to_numeric pd (remove_chr 44 (astype_str v))))) (rows T)\<rparr>
      else T)"

definition finish_twse :: "pandas \<Rightarrow> table \<Rightarrow> error + table" where
  "finish_twse pd df =
     and_then (str_column df id_col) (\<lambda>_.
       let df1 = strip_column id_col (dropna_subset id_col (drop_totals id_col df))
       in Inr (fold (numeric_column pd) (columns df1) df1))"

subsection \<open>The parser\<close>

definition parse_twse_csv_body :: "pandas \<Rightarrow> ustr \<Rightarrow> ustr \<Rightarrow> error + table" where
  "parse_twse_csv_body pd csv_content name =
     (let lines = twse_lines csv_content in
      if length lines < 2 then Inr empty_df
      else case first_index (\<lambda>line. py_in id_col line \<and> py_in name_col line) lines of
        None \<Rightarrow> Inr empty_df
      | Some header_row_index \<Rightarrow>
          and_then
            (if name = src_trust then trust_frame pd lines header_row_index
             else if name = src_foreign \<or> name = src_dealer
               then two_level_frame lines header_row_index name
             else Inr empty_df)
            (finish_twse pd))"

text \<open>The \<open>try\<close> of the function: every exception of the body gives the empty frame.\<close>

definition parse_twse_csv :: "pandas \<Rightarrow> ustr \<Rightarrow> ustr \<Rightarrow> table" where
  "parse_twse_csv pd csv_content name =
     (case parse_twse_csv_body pd csv_content name of Inl e \<Rightarrow> empty_df | Inr df \<Rightarrow> df)"

section \<open>\<open>parse_tpex_csv\<close>\<close>

definition dropna_all :: "table \<Rightarrow> table" where
  "dropna_all T = T\<lparr>rows := filter (\<lambda>r. \<exists>c \<in> set (columns T). r c \<noteq> None) (rows T)\<rparr>"

definition tpex_rename :: "ustr \<Rightarrow> ustr" where
  "tpex_rename c = (if c = tpex_id then id_col else if c = tpex_name then name_col else c)"

definition columns_to_keep :: "ustr list" where
  "columns_to_keep =
     [id_col, name_col,
      grp_foreign @ buy_shares, grp_foreign @ sell_shares, grp_foreign @ net_shares,
      src_trust @ buy_shares, src_trust @ sell_shares, src_trust @ net_shares,
      grp_dealer_self @ buy_shares, grp_dealer_self @ sell_shares, grp_dealer_self @ net_shares,
      grp_dealer_hedge @ buy_shares, grp_dealer_hedge @ sell_shares,
      grp_dealer_hedge @ net_shares]"

text \<open>
  The loop of lines 143 to 147: \<open>final_columns_to_select\<close> and \<open>rename_map_suffix\<close>.
\<close>

fun tpex_select :: "ustr list \<Rightarrow> ustr list \<Rightarrow> ustr list \<times> (ustr \<times> ustr) list" where
  "tpex_select cols [] = ([], [])"
| "tpex_select cols (col_base # bs) =
     (let (sel, ren) = tpex_select cols bs in
      if col_base \<in> set cols then (col_base # sel, ren)
      else if col_base @ unit_suffix \<in> set cols
        then ((col_base @ unit_suffix) # sel, (col_base @ unit_suffix, col_base) # ren)
      else (sel, ren))"

definition rename_by :: "(ustr \<times> ustr) list \<Rightarrow> ustr \<Rightarrow> ustr" where
  "rename_by ren c = (case map_of ren c of None \<Rightarrow> c | Some c' \<Rightarrow> c')"

text \<open>Lines 130 to 148, on the frame that \<open>read_csv\<close> gave.\<close>

definition tpex_finish :: "table \<Rightarrow> error + table" where
  "tpex_finish df0 =
     (let df1 = dropna_all (rename_columns strip df0) in
      and_then (str_column df1 tpex_id) (\<lambda>_.
        let df2 = rename_columns tpex_rename
                    (dropna_subset tpex_id (drop_totals tpex_id df1)) in
        and_then (str_column df2 id_col) (\<lambda>_.
          let df3 = strip_column id_col df2;
              (sel, ren) = tpex_select (columns df3) columns_to_keep
          in Inr (rename_columns (rename_by ren) (select_columns sel df3)))))"

definition parse_tpex_csv_body :: "pandas \<Rightarrow> ustr \<Rightarrow> error + table" where
  "parse_tpex_csv_body pd csv_content =
     (let lines = split_on 10 (strip csv_content) in
      if length lines < 2 then Inr empty_df
      else case first_index (\<lambda>line. py_in tpex_id line \<and> py_in tpex_name line) lines of
        None \<Rightarrow> Inr empty_df
      | Some header_row_index \<Rightarrow>
          and_then (read_csv pd (join_nl (drop header_row_index lines))) tpex_finish)"

definition parse_tpex_csv :: "pandas \<Rightarrow> ustr \<Rightarrow> table" where
  "parse_tpex_csv pd csv_content =
     (case parse_tpex_csv_body pd csv_content of Inl e \<Rightarrow> empty_df | Inr df \<Rightarrow> df)"

section \<open>\<open>merge_dataframes\<close>\<close>

definition join_keys :: "ustr list" where
  "join_keys = [id_col, name_col]"

definition has_keys :: "table \<Rightarrow> bool" where
  "has_keys df = (id_col \<in> set (columns df) \<and> name_col \<in> set (columns df))"

definition row_key :: "row \<Rightarrow> cell option \<times> cell option" where
  "row_key r = (r id_col, r name_col)"

text \<open>
  \<open>pd.merge(A, B, on=['...', '...'], how='outer')\<close> for two frames that have the key
  columns. A label other than a key that both frames have gets the suffix \<open>_x\<close> on the left
  and \<open>_y\<close> on the right. The columns are those of \<open>A\<close>, then those of \<open>B\<close> without the
  keys. Every pair of a left and a right row with equal keys gives a row (missing key
  values are equal to each other); a row without partner is kept, its cells on the other
  side missing. The order in which pandas lists the rows of an outer join is not modelled:
  they stand here by left row, the right rows without partner last.
\<close>

definition shared_label :: "table \<Rightarrow> table \<Rightarrow> ustr \<Rightarrow> bool" where
  "shared_label A B c = (c \<notin> set join_keys \<and> c \<in> set (columns A) \<and> c \<in> set (columns B))"

definition left_label :: "table \<Rightarrow> table \<Rightarrow> ustr \<Rightarrow> ustr" where
  "left_label A B c = (if shared_label A B c then c @ ascii ''_x'' else c)"

definition right_label :: "table \<Rightarrow> table \<Rightarrow> ustr \<Rightarrow> ustr" where
  "right_label A B c = (if shared_label A B c then c @ ascii ''_y'' else c)"

definition right_columns :: "table \<Rightarrow> ustr list" where
  "right_columns B = filter (\<lambda>c. c \<notin> set join_keys) (columns B)"

definition left_part :: "table \<Rightarrow> table \<Rightarrow> row \<Rightarrow> row" where
  "left_part A B l =
     (\<lambda>c'. case find (\<lambda>c. left_label A B c = c') (columns A) of
              None \<Rightarrow> None | Some c \<Rightarrow> l c)"

definition right_part :: "table \<Rightarrow> table \<Rightarrow> row \<Rightarrow> row" where
  "right_part A B r =
     (\<lambda>c'. case find (\<lambda>c. right_label A B c = c') (right_columns B) of
              None \<Rightarrow> None | Some c \<Rightarrow> r c)"

definition joined_row :: "table \<Rightarrow> table \<Rightarrow> row \<Rightarrow> row \<Rightarrow> row" where
  "joined_row A B l r =
     (\<lambda>c'. if c' \<in> set (map (left_label A B) (columns A)) then left_part A B l c'
            else right_part A B r c')"

definition right_only_row :: "table \<Rightarrow> table \<Rightarrow> row \<Rightarrow> row" where
  "right_only_row A B r = (\<lambda>c'. if c' \<in> set join_keys then r c' else right_part A B r c')"

definition pd_merge_outer :: "table \<Rightarrow> table \<Rightarrow> table" where
  "pd_merge_outer A B =
     \<lparr>columns = map (left_label A B) (columns A) @ map (right_label A B) (right_columns B),
      rows =
        concat (map (\<lambda>l. let ms = filter (\<lambda>r. row_key r = row_key l) (rows B)
                          in if ms = [] then [left_part A B l] else map (joined_row A B l) ms)
                    (rows A))
        @ map (right_only_row A B)
            (filter (\<lambda>r. row_key r \<notin> set (map row_key (rows A))) (rows B))\<rparr>"

text \<open>One round of the loop of lines 161 and 162.\<close>

definition fillna_zero :: "ustr \<Rightarrow> table \<Rightarrow> table" where
  "fillna_zero col T =
     (if py_in share_mark col
      then T\<lparr>rows := map (\<lambda>r. r(col := (case r col of None \<Rightarrow> Some (Num 0)
                                                    | Some v \<Rightarrow> Some v))) (rows T)\<rparr>
      else T)"

definition merge_dataframes :: "table list \<Rightarrow> table" where
  "merge_dataframes dfs =
     (if dfs = [] then empty_df
      else case filter has_keys dfs of
        [] \<Rightarrow> empty_df
      | df # valid_dfs \<Rightarrow>
          (let merged_df = foldl pd_merge_outer df valid_dfs
           in fold fillna_zero (columns merged_df) merged_df))"

section \<open>Files\<close>

text \<open>
  A path is the list of its components. The file system maps a path to a directory or to a
  file; a file holds a table: what \<open>to_csv\<close> wrote is what \<open>read_csv\<close> reads back, the
  text of the file and its re-typing on reading are not modelled. A write can fail: \<open>io p\<close>
  says whether a write to \<open>p\<close> is cut off by an \<open>OSError\<close>, and after how many rows; the
  file is opened at its own path, so whatever was written by then is what the path holds.
\<close>

type_synonym path = "ustr list"

datatype node = Dir | File table

type_synonym fs = "path \<Rightarrow> node option"

type_synonym io = "path \<Rightarrow> nat option"

definition is_file :: "fs \<Rightarrow> path \<Rightarrow> bool" where
  "is_file fs p = (case fs p of Some (File T) \<Rightarrow> True | _ \<Rightarrow> False)"

text \<open>
  \<open>df.to_csv(p, index=False, encoding='utf-8-sig')\<close>: the parent must be a directory,
  the path itself must not be one.
\<close>

definition to_csv :: "io \<Rightarrow> fs \<Rightarrow> path \<Rightarrow> table \<Rightarrow> fs \<times> (error + unit)" where
  "to_csv io fs p df =
     (if p = [] \<or> fs (butlast p) \<noteq> Some Dir \<or> fs p = Some Dir then (fs, Inl OSError)
      else case io p of
        None \<Rightarrow> (fs(p \<mapsto> File df), Inr ())
      | Some n \<Rightarrow> (fs(p \<mapsto> File (df\<lparr>rows := take n (rows df)\<rparr>)), Inl OSError))"

text \<open>
  \<open>p.mkdir(parents=True, exist_ok=True)\<close>: fails, creating nothing, when the path or one
  of its ancestors is a file; otherwise every missing directory down to \<open>p\<close> is created.
\<close>

definition mkdir_parents :: "fs \<Rightarrow> path \<Rightarrow> fs \<times> (error + unit)" where
  "mkdir_parents fs p =
     (if \<exists>q \<in> set (tl (prefixes p)). is_file fs q then (fs, Inl OSError)
      else ((\<lambda>q. if q \<in> set (tl (prefixes p)) \<and> fs q = None then Some Dir else fs q), Inr ()))"

section \<open>\<open>update_accumulation_file\<close>\<close>

text \<open>\<open>pd.read_csv(p, parse_dates=['...'])\<close>: the date column must be there.\<close>

definition read_history :: "fs \<Rightarrow> path \<Rightarrow> error + table" where
  "read_history fs p =
     (case fs p of
        None \<Rightarrow> Inl OSError
      | Some Dir \<Rightarrow> Inl OSError
      | Some (File T) \<Rightarrow>
          if columns T = [] then Inl ParserError
          else if date_col \<notin> set (columns T) then Inl ValueError
          else Inr T)"

text \<open>\<open>pd.concat([A, B], ignore_index=True)\<close>.\<close>

definition pd_concat :: "table \<Rightarrow> table \<Rightarrow> table" where
  "pd_concat A B =
     \<lparr>columns = columns A @ filter (\<lambda>c. c \<notin> set (columns A)) (columns B),
      rows = rows A @ rows B\<rparr>"

text \<open>\<open>drop_duplicates(subset=[c], keep='last')\<close>: a row goes when a later row has its
  value under \<open>c\<close> (two missing values count as equal).\<close>

fun keep_last :: "ustr \<Rightarrow> row list \<Rightarrow> row list" where
  "keep_last c [] = []"
| "keep_last c (r # rs) =
     (if \<exists>r' \<in> set rs. r' c = r c then keep_last c rs else r # keep_last c rs)"

definition drop_duplicates :: "ustr \<Rightarrow> table \<Rightarrow> error + table" where
  "drop_duplicates c T =
     (if c \<notin> set (columns T) then Inl KeyError else Inr (T\<lparr>rows := keep_last c (rows T)\<rparr>))"

text \<open>
  \<open>sort_values(by=c)\<close>: ascending, missing values last. Values of two kinds cannot be
  compared (\<open>TypeError\<close>); among values of one kind the order is that of the strings, the
  numbers or the dates. The sort used here is stable; the source sorts after removing the
  duplicates of the column, where no two rows have the same value.
\<close>

fun cell_kind :: "cell \<Rightarrow> nat" where
  "cell_kind (Str s) = 0"
| "cell_kind (Num n) = 1"
| "cell_kind (Ts y m d) = 2"

fun sort_rank :: "cell option \<Rightarrow> bool \<times> int list" where
  "sort_rank None = (True, [])"
| "sort_rank (Some (Str s)) = (False, map int s)"
| "sort_rank (Some (Num n)) = (False, [n])"
| "sort_rank (Some (Ts y m d)) = (False, [int y, int m, int d])"

definition sort_values :: "ustr \<Rightarrow> table \<Rightarrow> error + table" where
  "sort_values c T =
     (if c \<notin> set (columns T) then Inl KeyError
      else if 1 < length (remdups (map cell_kind (List.map_filter (\<lambda>r. r c) (rows T))))
        then Inl TypeError
      else Inr (T\<lparr>rows := sort_key (\<lambda>r. sort_rank (r c)) (rows T)\<rparr>))"

text \<open>The body of the \<open>try\<close> (lines 169 to 175), with the file system it leaves.\<close>

definition accumulate :: "io \<Rightarrow> fs \<Rightarrow> path \<Rightarrow> table \<Rightarrow> fs \<times> (error + unit)" where
  "accumulate io fs accumulation_file new_data_df =
     (case and_then
             (if fs accumulation_file \<noteq> None
              then and_then (read_history fs accumulation_file)
                     (\<lambda>existing_df. Inr (pd_concat existing_df new_data_df))
              else Inr new_data_df)
             (\<lambda>combined_df. and_then (drop_duplicates date_col combined_df)
                                        (sort_values date_col)) of
        Inl e \<Rightarrow> (fs, Inl e)
      | Inr combined_df \<Rightarrow> to_csv io fs accumulation_file combined_df)"

definition accumulation_path :: "path \<Rightarrow> ustr \<Rightarrow> path" where
  "accumulation_path stock_dir stock_id = stock_dir @ [stock_id @ ascii ''.csv'']"

text \<open>Every exception of the body is logged and dropped.\<close>

definition update_accumulation_file :: "io \<Rightarrow> fs \<Rightarrow> ustr \<Rightarrow> table \<Rightarrow> path \<Rightarrow> fs" where
  "update_accumulation_file io fs stock_id new_data_df stock_dir =
     fst (accumulate io fs (accumulation_path stock_dir stock_id) new_data_df)"

section \<open>\<open>process_day\<close>\<close>

record pydate =
  year :: nat
  month :: nat
  day :: nat

text \<open>\<open>target_date.strftime('%Y-%m-%d')\<close> and \<open>pd.to_datetime(target_date)\<close>.\<close>

definition iso_date :: "pydate \<Rightarrow> ustr" where
  "iso_date d = zero_pad 4 (year d) @ 45 # zero_pad 2 (month d) @ 45 # zero_pad 2 (day d)"

definition to_datetime :: "pydate \<Rightarrow> cell" where
  "to_datetime d = Ts (year d) (month d) (day d)"

text \<open>
  The network is not modelled: \<open>feeds\<close> holds, for each source, the text that \<open>fetch_data\<close>
  and \<open>decode_content\<close> gave, or \<open>None\<close> when either gave \<open>None\<close>.
\<close>

record feeds =
  twse_feed :: "ustr \<Rightarrow> ustr option"
  tpex_feed :: "ustr option"

definition twse_sources :: "ustr list" where
  "twse_sources = [src_foreign, src_trust, src_dealer]"

text \<open>\<open>df[c] = v\<close> for one value \<open>v\<close>.\<close>

definition set_column :: "table \<Rightarrow> ustr \<Rightarrow> cell \<Rightarrow> table" where
  "set_column T c v =
     \<lparr>columns = (if c \<in> set (columns T) then columns T else columns T @ [c]),
      rows = map (\<lambda>r. r(c \<mapsto> v)) (rows T)\<rparr>"

definition twse_frames :: "pandas \<Rightarrow> feeds \<Rightarrow> table list" where
  "twse_frames pd fd =
     concat (map (\<lambda>name. case twse_feed fd name of
                            None \<Rightarrow> []
                          | Some content_str \<Rightarrow>
                              if content_str = [] then []
                              else (let df = parse_twse_csv pd content_str name
                                    in if df_empty df then [] else [df]))
                 twse_sources)"

definition twse_market :: "pandas \<Rightarrow> feeds \<Rightarrow> pydate \<Rightarrow> table" where
  "twse_market pd fd target_date =
     (let twse_dfs = twse_frames pd fd in
      if twse_dfs = [] then empty_df
      else (let twse_market_df = merge_dataframes twse_dfs in
            if df_empty twse_market_df then twse_market_df
            else set_column twse_market_df date_col (to_datetime target_date)))"

text \<open>One round of the loop of lines 205 and 206.\<close>

definition numeric_fill :: "pandas \<Rightarrow> ustr \<Rightarrow> table \<Rightarrow> table" where
  "numeric_fill pd col T =
     (if py_in share_mark col
      then T\<lparr>rows := map (\<lambda>r. r(col \<mapsto>
               (case (case r col of None \<Rightarrow> None
                      | Some v \<Rightarrow> to_numeric pd (remove_chr 44 (astype_str v))) of
                  None \<Rightarrow> Num 0 | Some x \<Rightarrow> x))) (rows T)\<rparr>
      else T)"

definition tpex_market :: "pandas \<Rightarrow> feeds \<Rightarrow> pydate \<Rightarrow> table" where
  "tpex_market pd fd target_date =
     (case tpex_feed fd of
        None \<Rightarrow> empty_df
      | Some content_str \<Rightarrow>
          if content_str = [] then empty_df
          else (let tpex_market_df = parse_tpex_csv pd content_str in
                if df_empty tpex_market_df then tpex_market_df
                else (let df = set_column tpex_market_df date_col (to_datetime target_date)
                      in fold (numeric_fill pd) (columns df) df)))"

definition data_dir :: "path \<Rightarrow> ustr \<Rightarrow> path" where
  "data_dir root market_type =
     root @ [ascii ''data'', if market_type = listed then ascii ''twse_raw'' else ascii ''tpex_raw'']"

definition daily_path :: "path \<Rightarrow> pydate \<Rightarrow> path" where
  "daily_path stock_dir target_date = stock_dir @ [iso_date target_date @ ascii ''.csv'']"

text \<open>
  One round of the loop over the tracked securities (lines 210 to 227), with the file
  system it leaves. A market table without the identifier column raises a \<open>KeyError\<close>
  that nothing catches; an \<open>OSError\<close> of the writes is logged and dropped.
\<close>

definition persist_security ::
  "io \<Rightarrow> path \<Rightarrow> pydate \<Rightarrow> table \<Rightarrow> table \<Rightarrow> fs \<Rightarrow> ustr \<times> ustr \<Rightarrow> fs \<times> (error + unit)" where
  "persist_security io root target_date twse_market_df tpex_market_df fs entry =
     (let stock_id = fst entry; market_type = snd entry;
          base_dir = data_dir root market_type;
          market_df = (if market_type = listed then twse_market_df else tpex_market_df)
      in
      if df_empty market_df then (fs, Inr ())
      else if id_col \<notin> set (columns market_df) then (fs, Inl KeyError)
      else
        (let stock_df = market_df\<lparr>rows := filter (\<lambda>r. r id_col = Some (Str stock_id))
                                               (rows market_df)\<rparr>
         in
         if df_empty stock_df then (fs, Inr ())
         else
           (let stock_dir = base_dir @ [stock_id];
                daily_file = daily_path stock_dir target_date
            in
            if fs daily_file \<noteq> None then (fs, Inr ())
            else case mkdir_parents fs stock_dir of
              (fs1, Inl e) \<Rightarrow> (fs1, Inr ())
            | (fs1, Inr u) \<Rightarrow>
                (case to_csv io fs1 daily_file stock_df of
                   (fs2, Inl e) \<Rightarrow> (fs2, Inr ())
                 | (fs2, Inr u) \<Rightarrow>
                     (update_accumulation_file io fs2 stock_id stock_df stock_dir, Inr ())))))"

fun persist_all ::
  "io \<Rightarrow> path \<Rightarrow> pydate \<Rightarrow> table \<Rightarrow> table \<Rightarrow> fs \<Rightarrow> (ustr \<times> ustr) list \<Rightarrow> fs \<times> (error + unit)" where
  "persist_all io root target_date twse_df tpex_df fs [] = (fs, Inr ())"
| "persist_all io root target_date twse_df tpex_df fs (entry # stock_map) =
     (case persist_security io root target_date twse_df tpex_df fs entry of
        (fs', Inl e) \<Rightarrow> (fs', Inl e)
      | (fs', Inr u) \<Rightarrow> persist_all io root target_date twse_df tpex_df fs' stock_map)"

text \<open>
  The stock map is a dictionary: its entries, in order, each identifier once.
\<close>

definition process_day ::
  "pandas \<Rightarrow> io \<Rightarrow> feeds \<Rightarrow> path \<Rightarrow> pydate \<Rightarrow> (ustr \<times> ustr) list \<Rightarrow> fs \<Rightarrow> fs \<times> (error + unit)" where
  "process_day pd io fd root target_date stock_map fs =
     (let twse_market_df = twse_market pd fd target_date;
          tpex_market_df = tpex_market pd fd target_date
      in
      if df_empty twse_market_df \<and> df_empty tpex_market_df then (fs, Inr ())
      else persist_all io root target_date twse_market_df tpex_market_df fs stock_map)"

section \<open>Predicates of the statements\<close>






text \<open>
  A text has no header line for the labels \<open>a\<close> and \<open>b\<close> when none of its lines
  contains both; it has few lines when fewer than two of its lines are non-blank.
\<close>

definition no_header_line :: "ustr \<Rightarrow> ustr \<Rightarrow> ustr \<Rightarrow> bool" where
  "no_header_line a b content =
     (\<not> list_ex (\<lambda>line. py_in a line \<and> py_in b line) (split_on 10 content))"

definition few_lines :: "ustr \<Rightarrow> bool" where
  "few_lines content = (length (filter (\<lambda>line. strip line \<noteq> []) (split_on 10 content)) < 2)"

text \<open>
  A history table, as \<open>update_accumulation_file\<close> reads it back: it has the date column,
  and every date in it is a timestamp or missing. The table stored at a path is the empty
  table when the path holds no file.
\<close>

definition date_cell :: "cell option \<Rightarrow> bool" where
  "date_cell v = (case v of None \<Rightarrow> True | Some (Ts y m d) \<Rightarrow> True | Some c \<Rightarrow> False)"

definition history_table :: "table \<Rightarrow> bool" where
  "history_table T =
     (date_col \<in> set (columns T) \<and> list_all (\<lambda>r. date_cell (r date_col)) (rows T))"

definition stored :: "fs \<Rightarrow> path \<Rightarrow> table" where
  "stored fs p = (case fs p of Some (File T) \<Rightarrow> T | _ \<Rightarrow> empty_df)"

text \<open>
  The state of the history file of a security before an update that can go through: the
  directory of the security is there, the write will not fail, and the path of the file is
  free or holds a history table.
\<close>

definition history_state :: "io \<Rightarrow> fs \<Rightarrow> path \<Rightarrow> ustr \<Rightarrow> bool" where
  "history_state io fs stock_dir stock_id =
     (fs stock_dir = Some Dir
      \<and> io (accumulation_path stock_dir stock_id) = None
      \<and> (fs (accumulation_path stock_dir stock_id) = None
         \<or> (is_file fs (accumulation_path stock_dir stock_id)
            \<and> history_table (stored fs (accumulation_path stock_dir stock_id)))))"

text \<open>A frame of one row for one date.\<close>

definition single_date_row :: "table \<Rightarrow> row \<Rightarrow> pydate \<Rightarrow> bool" where
  "single_date_row df r d =
     (date_col \<in> set (columns df) \<and> rows df = [r] \<and> r date_col = Some (to_datetime d))"

section \<open>Example inputs\<close>

text \<open>
  A library instance for the examples: \<open>read_csv\<close> fails on every text, \<open>to_numeric\<close>
  reads a run of decimal digits and coerces every other string to a missing value.
\<close>

definition digits_value :: "ustr \<Rightarrow> cell option" where
  "digits_value s =
     (if s \<noteq> [] \<and> list_all (\<lambda>c. 48 \<le> c \<and> c \<le> 57) s
      then Some (Num (int (foldl (\<lambda>a c. 10 * a + (c - 48)) 0 s)))
      else None)"

definition ex_pandas :: pandas where
  "ex_pandas = \<lparr>read_csv = (\<lambda>s. Inl ParserError), to_numeric = digits_value\<rparr>"

text \<open>
  A foreign investor text: the two header lines
  \<open>id,name,group,,\<close> and \<open>id,name,buy,sell,net\<close>, then one data line.
\<close>

definition ex_header :: ustr where
  "ex_header =
     id_col @ 44 # name_col @ 44 # grp_foreign @ [44, 44, 10]
     @ id_col @ 44 # name_col @ 44 # buy_shares @ 44 # sell_shares @ 44 # net_shares @ [10]"

definition ex_foreign_text :: ustr where
  "ex_foreign_text = ex_header @ ascii ''2330,X,10,4,6''"

definition ex_blank_id_text :: ustr where
  "ex_blank_id_text = ex_header @ ascii '',X,1,2,3''"

text \<open>
  A library instance whose \<open>read_csv\<close> gives one fixed frame, as for an over-the-counter
  text with the header \<open>id,name\<close>, a line for the security \<open>1101\<close> with blanks around
  the identifier, and a line of totals.
\<close>

definition ex_tpex_frame :: table where
  "ex_tpex_frame =
     \<lparr>columns = [tpex_id, tpex_name],
      rows = [[tpex_id \<mapsto> Str (ascii '' 1101 ''), tpex_name \<mapsto> Str (ascii ''X'')],
              [tpex_id \<mapsto> Str [0x5408, 0x8A08], tpex_name \<mapsto> Str (ascii ''Y'')]]\<rparr>"

definition ex_tpex_pandas :: pandas where
  "ex_tpex_pandas = \<lparr>read_csv = (\<lambda>s. Inr ex_tpex_frame), to_numeric = digits_value\<rparr>"

definition ex_tpex_text :: ustr where
  "ex_tpex_text = tpex_id @ 44 # tpex_name @ 10 # ascii '' 1101 ,X''"

text \<open>
  Two market tables of one row each, for different securities: the first with the foreign
  investors' bought shares, the second with the investment trusts' bought shares.
\<close>

definition ex_foreign_buy :: ustr where
  "ex_foreign_buy = src_foreign @ 0x5F # buy_shares"

definition ex_trust_buy :: ustr where
  "ex_trust_buy = src_trust @ 0x5F # buy_shares"

definition ex_table_a :: table where
  "ex_table_a =
     \<lparr>columns = [id_col, name_col, ex_foreign_buy],
      rows = [[id_col \<mapsto> Str (ascii ''2330''), name_col \<mapsto> Str (ascii ''X''),
               ex_foreign_buy \<mapsto> Num 10]]\<rparr>"

definition ex_table_b :: table where
  "ex_table_b =
     \<lparr>columns = [id_col, name_col, ex_trust_buy],
      rows = [[id_col \<mapsto> Str (ascii ''2317''), name_col \<mapsto> Str (ascii ''Y''),
               ex_trust_buy \<mapsto> Num 7]]\<rparr>"

text \<open>
  A text of three lines without any label, and a text that is a header line and nothing
  more.
\<close>

definition ex_three_lines :: ustr where
  "ex_three_lines = ascii ''a,b'' @ 10 # ascii ''c,d'' @ 10 # ascii ''e,f''"

definition ex_header_only :: ustr where
  "ex_header_only = 32 # id_col @ 44 # name_col @ [10, 32, 10]"

section \<open>Basic facts\<close>

lemma and_then_Inl [simp]: "and_then (Inl e) f = Inl e"
  by (simp add: and_then_def)

lemma and_then_Inr [simp]: "and_then (Inr v) f = f v"
  by (simp add: and_then_def)


lemmas label_defs = id_col_def name_col_def total_mark_def share_mark_def date_col_def
  src_foreign_def src_trust_def src_dealer_def buy_shares_def sell_shares_def net_shares_def
  grp_foreign_def grp_dealer_self_def grp_dealer_hedge_def dealer_self_def dealer_hedge_def
  tpex_id_def tpex_name_def unit_suffix_def listed_def

lemmas str_defs = ascii_def is_space_def lstrip_def rstrip_def strip_def remove_chr_def



lemmas ex_defs = ex_pandas_def ex_header_def ex_foreign_text_def ex_blank_id_text_def
  digits_value_def ex_tpex_frame_def ex_tpex_pandas_def ex_tpex_text_def
  ex_foreign_buy_def ex_trust_buy_def ex_table_a_def ex_table_b_def
  ex_three_lines_def ex_header_only_def


section \<open>The parser catches its exceptions\<close>

lemma finish_twse_empty: "finish_twse pd empty_df = Inl KeyError"
  by (simp add: finish_twse_def str_column_def empty_df_def)

text \<open>
  Claim C10. \<open>parse_twse_csv\<close> hands no exception to its caller: a failure of its body
  is turned into the empty table; and for a source name other than the three known ones the
  result is the empty table, whatever the text.
\<close>

theorem parse_twse_csv_never_raises:
  "(parse_twse_csv_body pd csv_content name = Inl e \<longrightarrow>
      parse_twse_csv pd csv_content name = empty_df) \<and>
   (name \<noteq> src_trust \<and> name \<noteq> src_foreign \<and> name \<noteq> src_dealer \<longrightarrow>
      parse_twse_csv pd csv_content name = empty_df)"
proof (intro conjI impI)
  assume "parse_twse_csv_body pd csv_content name = Inl e"
  then show "parse_twse_csv pd csv_content name = empty_df"
    by (simp add: parse_twse_csv_def)
next
  assume other: "name \<noteq> src_trust \<and> name \<noteq> src_foreign \<and> name \<noteq> src_dealer"
  then have "parse_twse_csv_body pd csv_content name = Inr empty_df
      \<or> parse_twse_csv_body pd csv_content name = Inl KeyError"
    by (simp add: parse_twse_csv_body_def Let_def finish_twse_empty split: option.splits)
  then show "parse_twse_csv pd csv_content name = empty_df"
    by (auto simp: parse_twse_csv_def)
qed

lemma ex_unknown_source_body:
  "parse_twse_csv_body ex_pandas ex_foreign_text (ascii ''x'') = Inl KeyError"
  by (simp add: parse_twse_csv_body_def twse_lines_def finish_twse_empty ex_defs label_defs
      str_defs)

theorem parse_twse_csv_never_raises_witness:
  "parse_twse_csv_body ex_pandas ex_foreign_text (ascii ''x'') = Inl KeyError
   \<and> ascii ''x'' \<noteq> src_trust \<and> ascii ''x'' \<noteq> src_foreign \<and> ascii ''x'' \<noteq> src_dealer
   \<and> parse_twse_csv ex_pandas ex_foreign_text (ascii ''x'') = empty_df"
proof -
  have names: "ascii ''x'' \<noteq> src_trust \<and> ascii ''x'' \<noteq> src_foreign \<and> ascii ''x'' \<noteq> src_dealer"
    by (simp add: ascii_def label_defs)
  with parse_twse_csv_never_raises [of ex_pandas ex_foreign_text "ascii ''x''" KeyError]
    ex_unknown_source_body
  show ?thesis by blast
qed

section \<open>Facts about strings\<close>

lemma py_in_sublist: "py_in sub s = sublist sub s"
  by (induction s) (auto simp: sublist_Cons_right)

lemma prefix_rstrip: "prefix (rstrip s) s"
proof -
  have "rev s = takeWhile is_space (rev s) @ dropWhile is_space (rev s)" by simp
  then have "s = rev (dropWhile is_space (rev s)) @ rev (takeWhile is_space (rev s))"
    by (metis rev_append rev_rev_ident)
  then show ?thesis unfolding rstrip_def by (metis prefixI)
qed





lemma rstrip_Nil [simp]: "rstrip [] = []"
  by (simp add: rstrip_def)





section \<open>Identifiers of parsed rows\<close>

























section \<open>Merging fills the share counts\<close>









section \<open>The two-level header\<close>
















section \<open>Lines of a stripped text\<close>

lemma split_on_ne [simp]: "split_on d xs \<noteq> []"
  by (induction xs) (auto split: list.splits)

lemma split_on_append:
  "split_on d (xs @ ys) =
     butlast (split_on d xs) @ (last (split_on d xs) @ hd (split_on d ys)) # tl (split_on d ys)"
proof (induction xs)
  case Nil
  then show ?case by simp
next
  case (Cons c xs)
  obtain l ls where sx: "split_on d xs = l # ls"
    by (cases "split_on d xs") auto
  show ?case
  proof (cases "c = d")
    case True
    with Cons sx show ?thesis by simp
  next
    case False
    with Cons sx show ?thesis by (cases ls) auto
  qed
qed

lemma split_on_chars: "l \<in> set (split_on d w) \<Longrightarrow> c \<in> set l \<Longrightarrow> c \<in> set w"
proof (induction w arbitrary: l)
  case Nil
  then show ?case by simp
next
  case (Cons a w)
  obtain l0 ls where sw: "split_on d w = l0 # ls"
    by (cases "split_on d w") auto
  from Cons.prems(1) sw have "l = [] \<or> l \<in> set (split_on d w) \<or> l = a # l0"
    by (auto split: if_splits)
  then consider "l = []" | "l \<in> set (split_on d w)" | "l = a # l0" by blast
  then show ?case
  proof cases
    case 1
    with Cons.prems(2) show ?thesis by simp
  next
    case 2
    from Cons.IH [OF this Cons.prems(2)] show ?thesis by simp
  next
    case 3
    show ?thesis
    proof (cases "c = a")
      case True
      then show ?thesis by simp
    next
      case False
      with 3 Cons.prems(2) have "c \<in> set l0" by simp
      moreover have "l0 \<in> set (split_on d w)" using sw by simp
      ultimately have "c \<in> set w" by (rule Cons.IH [rotated])
      then show ?thesis by simp
    qed
  qed
qed

lemma strip_empty_iff: "strip l = [] \<longleftrightarrow> (\<forall>c \<in> set l. is_space c)"
proof -
  have "strip l = [] \<longleftrightarrow> (\<forall>c \<in> set (dropWhile is_space l). is_space c)"
    by (auto simp: strip_def rstrip_def lstrip_def dropWhile_eq_Nil_conv)
  also have "\<dots> \<longleftrightarrow> (\<forall>c \<in> set l. is_space c)"
  proof
    assume a: "\<forall>c \<in> set (dropWhile is_space l). is_space c"
    have "set l = set (takeWhile is_space l) \<union> set (dropWhile is_space l)"
      by (metis set_append takeWhile_dropWhile_id)
    with a show "\<forall>c \<in> set l. is_space c" by (auto dest: set_takeWhileD)
  next
    assume "\<forall>c \<in> set l. is_space c"
    then show "\<forall>c \<in> set (dropWhile is_space l). is_space c"
      by (auto dest: set_dropWhileD)
  qed
  finally show ?thesis .
qed

lemma nonblank_append:
  "strip (a @ b) \<noteq> [] \<longleftrightarrow> strip a \<noteq> [] \<or> strip b \<noteq> []"
  by (auto simp: strip_empty_iff)

lemma blank_lines_of_blank:
  assumes "\<forall>c \<in> set w. is_space c" and "l \<in> set (split_on d w)"
  shows "strip l = []"
  using assms split_on_chars [of l d w] by (auto simp: strip_empty_iff)

lemma count_lines_blank_prefix:
  assumes "\<forall>c \<in> set p. is_space c"
  shows "length (filter (\<lambda>l. strip l \<noteq> []) (split_on d (p @ x)))
       = length (filter (\<lambda>l. strip l \<noteq> []) (split_on d x))"
proof -
  obtain l ls where sx: "split_on d x = l # ls" by (cases "split_on d x") auto
  have b: "\<forall>l \<in> set (split_on d p). strip l = []"
    using assms blank_lines_of_blank by blast
  then have "filter (\<lambda>l. strip l \<noteq> []) (butlast (split_on d p)) = []"
    by (auto simp: filter_empty_conv dest: in_set_butlastD)
  moreover from b have "strip (last (split_on d p)) = []" by simp
  ultimately show ?thesis
    by (simp add: split_on_append sx nonblank_append)
qed

lemma filter_butlast_last:
  "xs \<noteq> [] \<Longrightarrow>
     filter P xs = filter P (butlast xs) @ (if P (last xs) then [last xs] else [])"
  by (induction xs) auto

lemma count_lines_blank_suffix:
  assumes "\<forall>c \<in> set s. is_space c"
  shows "length (filter (\<lambda>l. strip l \<noteq> []) (split_on d (x @ s)))
       = length (filter (\<lambda>l. strip l \<noteq> []) (split_on d x))"
proof -
  have b: "\<forall>l \<in> set (split_on d s). strip l = []"
    using assms blank_lines_of_blank by blast
  then have t: "filter (\<lambda>l. strip l \<noteq> []) (tl (split_on d s)) = []"
    by (auto simp: filter_empty_conv dest: list.set_sel(2) [rotated])
  from b have h: "strip (hd (split_on d s)) = []" by simp
  have "filter (\<lambda>l. strip l \<noteq> []) (split_on d x) =
      filter (\<lambda>l. strip l \<noteq> []) (butlast (split_on d x))
      @ (if strip (last (split_on d x)) \<noteq> [] then [last (split_on d x)] else [])"
    by (rule filter_butlast_last) simp
  with t h show ?thesis
    by (simp add: split_on_append nonblank_append)
qed

lemma strip_decomp:
  "\<exists>p s. t = p @ strip t @ s \<and> (\<forall>c \<in> set p. is_space c) \<and> (\<forall>c \<in> set s. is_space c)"
proof -
  let ?p = "takeWhile is_space t"
  let ?u = "dropWhile is_space t"
  let ?s = "rev (takeWhile is_space (rev ?u))"
  have "rev ?u = takeWhile is_space (rev ?u) @ dropWhile is_space (rev ?u)" by simp
  then have "?u = rev (dropWhile is_space (rev ?u)) @ ?s"
    by (metis rev_append rev_rev_ident)
  then have u: "?u = strip t @ ?s" by (simp add: strip_def rstrip_def lstrip_def)
  have "t = ?p @ ?u" by simp
  with u have "t = ?p @ strip t @ ?s" by simp
  moreover have "\<forall>c \<in> set ?p. is_space c" by (auto dest: set_takeWhileD)
  moreover have "\<forall>c \<in> set ?s. is_space c" by (auto dest: set_takeWhileD)
  ultimately show ?thesis by blast
qed

lemma count_lines_strip:
  "length (filter (\<lambda>l. strip l \<noteq> []) (split_on d (strip t)))
   = length (filter (\<lambda>l. strip l \<noteq> []) (split_on d t))"
proof -
  from strip_decomp [of t] obtain p s where
    t: "t = p @ strip t @ s" and p: "\<forall>c \<in> set p. is_space c" and s: "\<forall>c \<in> set s. is_space c"
    by blast
  have "length (filter (\<lambda>l. strip l \<noteq> []) (split_on d (p @ strip t @ s)))
      = length (filter (\<lambda>l. strip l \<noteq> []) (split_on d (strip t)))"
    by (simp add: count_lines_blank_prefix [OF p] count_lines_blank_suffix [OF s])
  with t show ?thesis by simp
qed

lemma line_in_longer_prefix:
  assumes "l' \<in> set (split_on d x)"
  shows "\<exists>l \<in> set (split_on d (p @ x)). sublist l' l"
proof -
  obtain l0 ls where sx: "split_on d x = l0 # ls" by (cases "split_on d x") auto
  show ?thesis
  proof (cases "l' = l0")
    case True
    have "last (split_on d p) @ l0 \<in> set (split_on d (p @ x))"
      by (simp add: split_on_append sx)
    moreover have "sublist l' (last (split_on d p) @ l0)"
      using True by (simp add: sublist_appendI)
    ultimately show ?thesis by blast
  next
    case False
    with assms sx have "l' \<in> set (split_on d (p @ x))"
      by (simp add: split_on_append)
    then show ?thesis by blast
  qed
qed

lemma line_in_longer_suffix:
  assumes "l' \<in> set (split_on d x)"
  shows "\<exists>l \<in> set (split_on d (x @ s)). sublist l' l"
proof -
  have sx: "split_on d x = butlast (split_on d x) @ [last (split_on d x)]" by simp
  show ?thesis
  proof (cases "l' \<in> set (butlast (split_on d x))")
    case True
    then have "l' \<in> set (split_on d (x @ s))" by (simp add: split_on_append)
    then show ?thesis by blast
  next
    case False
    with assms sx have l': "l' = last (split_on d x)"
      by (metis Un_iff empty_iff empty_set set_ConsD set_append)
    have "last (split_on d x) @ hd (split_on d s) \<in> set (split_on d (x @ s))"
      by (simp add: split_on_append)
    moreover have "sublist l' (last (split_on d x) @ hd (split_on d s))"
      using l' by (metis sublist_appendI append_Nil)
    ultimately show ?thesis by blast
  qed
qed

lemma line_of_stripped:
  assumes "l' \<in> set (split_on d (strip t))"
  shows "\<exists>l \<in> set (split_on d t). sublist l' l"
proof -
  from strip_decomp [of t] obtain p s where t: "t = p @ strip t @ s" by blast
  from line_in_longer_suffix [OF assms, of s] obtain l1 where
    l1: "l1 \<in> set (split_on d (strip t @ s))" "sublist l' l1" by blast
  from line_in_longer_prefix [OF l1(1), of p] obtain l where
    l: "l \<in> set (split_on d (p @ strip t @ s))" "sublist l1 l" by blast
  from l1(2) l(2) have "sublist l' l" by (rule sublist_order.order.trans)
  with l(1) t show ?thesis by metis
qed

lemma py_in_line_of_stripped:
  assumes "\<not> (\<exists>l \<in> set (split_on d t). py_in a l \<and> py_in b l)"
    and "l' \<in> set (split_on d (strip t))"
  shows "\<not> (py_in a l' \<and> py_in b l')"
proof
  assume h: "py_in a l' \<and> py_in b l'"
  from line_of_stripped [OF assms(2)] obtain l where
    l: "l \<in> set (split_on d t)" "sublist l' l" by blast
  from h l(2) have "py_in a l \<and> py_in b l"
    by (auto simp: py_in_sublist intro: sublist_order.order.trans)
  with assms(1) l(1) show False by blast
qed

lemma first_index_None: "first_index P xs = None \<longleftrightarrow> (\<forall>x \<in> set xs. \<not> P x)"
  by (induction xs) auto

lemma strip_ends:
  assumes "strip t \<noteq> []"
  shows "\<not> is_space (hd (strip t)) \<and> \<not> is_space (last (strip t))"
proof -
  let ?u = "lstrip t"
  from assms have une: "?u \<noteq> []" by (auto simp: strip_def rstrip_def)
  then have hu: "\<not> is_space (hd ?u)" by (simp add: lstrip_def hd_dropWhile)
  from assms have "prefix (strip t) ?u" by (simp add: strip_def prefix_rstrip)
  with assms have "hd (strip t) = hd ?u" by (auto simp: prefix_def)
  with hu have h: "\<not> is_space (hd (strip t))" by simp
  from assms have dne: "dropWhile is_space (rev ?u) \<noteq> []"
    by (simp add: strip_def rstrip_def)
  have "last (strip t) = hd (dropWhile is_space (rev ?u))"
    using dne by (simp add: strip_def rstrip_def last_rev)
  with dne have "\<not> is_space (last (strip t))" by (simp add: hd_dropWhile)
  with h show ?thesis by simp
qed

lemma hd_in_first_line: "m \<noteq> [] \<Longrightarrow> hd m \<noteq> d \<Longrightarrow> hd m \<in> set (hd (split_on d m))"
  by (cases m) (auto split: list.splits)

lemma last_in_last_line:
  assumes "m \<noteq> []" and "last m \<noteq> d"
  shows "last m \<in> set (last (split_on d m))"
proof -
  from assms(1) have "m = butlast m @ [last m]" by simp
  then have "split_on d m = split_on d (butlast m @ [last m])" by simp
  also have "\<dots> = butlast (split_on d (butlast m))
      @ [last (split_on d (butlast m)) @ [last m]]"
    using assms(2) by (simp add: split_on_append)
  finally show ?thesis by simp
qed

lemma newline_is_space: "is_space 10"
  by (simp add: is_space_def)

lemma two_nonblank_ends:
  assumes "2 \<le> length ls" and "P (hd ls)" and "P (last ls)"
  shows "2 \<le> length (filter P ls)"
proof -
  from assms(1) obtain a rest where ls: "ls = a # rest" "rest \<noteq> []"
    by (cases ls; cases "tl ls") auto
  with assms(3) have "P (last rest)" by simp
  with ls(2) have "filter P rest \<noteq> []"
    by (auto simp: filter_empty_conv)
  then have "1 \<le> length (filter P rest)" by (cases "filter P rest") auto
  with ls assms(2) show ?thesis by simp
qed

lemma lines_of_stripped_nonblank:
  assumes "2 \<le> length (split_on 10 (strip t))"
  shows "2 \<le> length (filter (\<lambda>l. strip l \<noteq> []) (split_on 10 (strip t)))"
proof -
  from assms have ne: "strip t \<noteq> []" by (cases "strip t") auto
  from strip_ends [OF ne] newline_is_space have
    h: "hd (strip t) \<noteq> 10" "\<not> is_space (hd (strip t))"
    and l: "last (strip t) \<noteq> 10" "\<not> is_space (last (strip t))"
    by auto
  from hd_in_first_line [OF ne h(1)] h(2)
  have "strip (hd (split_on 10 (strip t))) \<noteq> []" by (auto simp: strip_empty_iff)
  moreover from last_in_last_line [OF ne l(1)] l(2)
  have "strip (last (split_on 10 (strip t))) \<noteq> []" by (auto simp: strip_empty_iff)
  ultimately show ?thesis using assms by (intro two_nonblank_ends)
qed

text \<open>
  Claim C8. For every text: when no line holds both labels of the header (the identifier
  and name labels the parser looks for), or fewer than two lines are non-blank, each
  parser finishes without an exception, also inside its \<open>try\<close>, and returns the empty
  table.
\<close>

theorem parsers_empty_without_header:
  "(no_header_line id_col name_col csv_content \<or> few_lines csv_content \<longrightarrow>
      parse_twse_csv_body pd csv_content name = Inr empty_df
      \<and> parse_twse_csv pd csv_content name = empty_df) \<and>
   (no_header_line tpex_id tpex_name csv_content \<or> few_lines csv_content \<longrightarrow>
      parse_tpex_csv_body pd csv_content = Inr empty_df
      \<and> parse_tpex_csv pd csv_content = empty_df)"
proof (intro conjI impI)
  assume h: "no_header_line id_col name_col csv_content \<or> few_lines csv_content"
  have "length (twse_lines csv_content) < 2
      \<or> first_index (\<lambda>line. py_in id_col line \<and> py_in name_col line)
           (twse_lines csv_content) = None"
  proof (cases "few_lines csv_content")
    case True
    then have "length (filter (\<lambda>l. strip l \<noteq> []) (split_on 10 (strip csv_content))) < 2"
      unfolding few_lines_def by (simp only: count_lines_strip)
    then show ?thesis unfolding twse_lines_def by (rule disjI1)
  next
    case False
    with h have "no_header_line id_col name_col csv_content" by blast
    then have "\<not> (\<exists>l \<in> set (split_on 10 csv_content). py_in id_col l \<and> py_in name_col l)"
      unfolding no_header_line_def list_ex_iff .
    then have "\<forall>l \<in> set (twse_lines csv_content). \<not> (py_in id_col l \<and> py_in name_col l)"
    proof (intro ballI)
      fix l
      assume nh: "\<not> (\<exists>l \<in> set (split_on 10 csv_content). py_in id_col l \<and> py_in name_col l)"
      assume "l \<in> set (twse_lines csv_content)"
      then have "l \<in> set (split_on 10 (strip csv_content))" by (simp add: twse_lines_def)
      with nh show "\<not> (py_in id_col l \<and> py_in name_col l)"
        by (rule py_in_line_of_stripped)
    qed
    then have "first_index (\<lambda>line. py_in id_col line \<and> py_in name_col line)
           (twse_lines csv_content) = None"
      by (simp only: first_index_None)
    then show ?thesis by (rule disjI2)
  qed
  then show b: "parse_twse_csv_body pd csv_content name = Inr empty_df"
  proof
    assume "length (twse_lines csv_content) < 2"
    then show ?thesis by (simp add: parse_twse_csv_body_def Let_def)
  next
    assume "first_index (\<lambda>line. py_in id_col line \<and> py_in name_col line)
              (twse_lines csv_content) = None"
    then show ?thesis by (simp add: parse_twse_csv_body_def Let_def)
  qed
  then show "parse_twse_csv pd csv_content name = empty_df"
    by (simp add: parse_twse_csv_def)
next
  assume h: "no_header_line tpex_id tpex_name csv_content \<or> few_lines csv_content"
  have "length (split_on 10 (strip csv_content)) < 2
      \<or> first_index (\<lambda>line. py_in tpex_id line \<and> py_in tpex_name line)
           (split_on 10 (strip csv_content)) = None"
  proof (cases "few_lines csv_content")
    case True
    then have "length (filter (\<lambda>l. strip l \<noteq> []) (split_on 10 (strip csv_content))) < 2"
      unfolding few_lines_def by (simp only: count_lines_strip)
    then have "\<not> 2 \<le> length (filter (\<lambda>l. strip l \<noteq> []) (split_on 10 (strip csv_content)))"
      by simp
    with lines_of_stripped_nonblank [of csv_content]
    have "\<not> 2 \<le> length (split_on 10 (strip csv_content))" by blast
    then show ?thesis by simp
  next
    case False
    with h have "no_header_line tpex_id tpex_name csv_content" by blast
    then have "\<not> (\<exists>l \<in> set (split_on 10 csv_content). py_in tpex_id l \<and> py_in tpex_name l)"
      unfolding no_header_line_def list_ex_iff .
    then have "\<forall>l \<in> set (split_on 10 (strip csv_content)).
        \<not> (py_in tpex_id l \<and> py_in tpex_name l)"
    proof (intro ballI)
      fix l
      assume nh: "\<not> (\<exists>l \<in> set (split_on 10 csv_content). py_in tpex_id l \<and> py_in tpex_name l)"
      assume "l \<in> set (split_on 10 (strip csv_content))"
      with nh show "\<not> (py_in tpex_id l \<and> py_in tpex_name l)"
        by (rule py_in_line_of_stripped)
    qed
    then have "first_index (\<lambda>line. py_in tpex_id line \<and> py_in tpex_name line)
           (split_on 10 (strip csv_content)) = None"
      by (simp only: first_index_None)
    then show ?thesis by (rule disjI2)
  qed
  then show b: "parse_tpex_csv_body pd csv_content = Inr empty_df"
  proof
    assume "length (split_on 10 (strip csv_content)) < 2"
    then show ?thesis by (simp add: parse_tpex_csv_body_def Let_def)
  next
    assume "first_index (\<lambda>line. py_in tpex_id line \<and> py_in tpex_name line)
              (split_on 10 (strip csv_content)) = None"
    then show ?thesis by (simp add: parse_tpex_csv_body_def Let_def)
  qed
  then show "parse_tpex_csv pd csv_content = empty_df"
    by (simp add: parse_tpex_csv_def)
qed

lemma ex_three_lines_facts:
  "no_header_line id_col name_col ex_three_lines \<and> no_header_line tpex_id tpex_name ex_three_lines
   \<and> \<not> few_lines ex_three_lines"
  by (simp add: no_header_line_def few_lines_def ex_defs label_defs str_defs)

lemma ex_header_only_facts:
  "\<not> no_header_line id_col name_col ex_header_only
   \<and> \<not> no_header_line tpex_id tpex_name ex_header_only \<and> few_lines ex_header_only"
  by (simp add: no_header_line_def few_lines_def ex_defs label_defs str_defs)

theorem parsers_empty_without_header_witness:
  "no_header_line id_col name_col ex_three_lines \<and> no_header_line tpex_id tpex_name ex_three_lines
   \<and> \<not> few_lines ex_three_lines
   \<and> parse_twse_csv ex_pandas ex_three_lines src_foreign = empty_df
   \<and> parse_tpex_csv ex_tpex_pandas ex_three_lines = empty_df
   \<and> \<not> no_header_line id_col name_col ex_header_only
   \<and> \<not> no_header_line tpex_id tpex_name ex_header_only \<and> few_lines ex_header_only
   \<and> parse_twse_csv ex_pandas ex_header_only src_foreign = empty_df
   \<and> parse_tpex_csv ex_tpex_pandas ex_header_only = empty_df"
  using ex_three_lines_facts ex_header_only_facts
    parsers_empty_without_header [of ex_three_lines ex_pandas src_foreign]
    parsers_empty_without_header [of ex_three_lines ex_tpex_pandas src_foreign]
    parsers_empty_without_header [of ex_header_only ex_pandas src_foreign]
    parsers_empty_without_header [of ex_header_only ex_tpex_pandas src_foreign]
  by blast

section \<open>The accumulator\<close>

lemma keep_last_subset: "set (keep_last c xs) \<subseteq> set xs"
  by (induction xs) auto

lemma keep_last_distinct: "distinct (map (\<lambda>r. r c) (keep_last c xs))"
proof (induction xs)
  case Nil
  then show ?case by simp
next
  case (Cons x xs)
  have "\<forall>r' \<in> set (keep_last c xs). r' \<in> set xs" using keep_last_subset by blast
  with Cons show ?case by auto
qed

lemma keep_last_snoc:
  "keep_last c (xs @ [r]) = filter (\<lambda>x. x c \<noteq> r c) (keep_last c xs) @ [r]"
  by (induction xs) auto

lemma keep_last_id: "distinct (map (\<lambda>r. r c) xs) \<Longrightarrow> keep_last c xs = xs"
  by (induction xs) (auto simp: image_iff)

lemma filter_eq_singleton:
  "distinct (map f xs) \<Longrightarrow> k \<in> set xs \<Longrightarrow> filter (\<lambda>x. f k = f x) xs = [k]"
proof (induction xs)
  case Nil
  then show ?case by simp
next
  case (Cons x xs)
  show ?case
  proof (cases "x = k")
    case True
    with Cons.prems have "\<forall>y \<in> set xs. f y \<noteq> f k" by (auto simp: image_iff)
    then have "filter (\<lambda>x. f k = f x) xs = []" by (auto simp: filter_empty_conv)
    with True show ?thesis by simp
  next
    case False
    with Cons.prems have k: "k \<in> set xs" by simp
    with Cons.prems have "f x \<noteq> f k" by (auto simp: image_iff)
    with Cons k show ?thesis by simp
  qed
qed

lemma resort_same:
  assumes "sorted (map f ys)" and "distinct (map f ys)" and "mset xs = mset ys"
  shows "sort_key f xs = ys"
proof (rule properties_for_sort_key)
  show "mset ys = mset xs" using assms(3) by simp
  show "sorted (map f ys)" by fact
  fix k assume k: "k \<in> set ys"
  from assms(3) have "mset (map f xs) = mset (map f ys)" by simp
  with assms(2) have dx: "distinct (map f xs)" by (metis mset_eq_imp_distinct_iff)
  from k assms(3) have kx: "k \<in> set xs" by (metis mset_eq_setD)
  from filter_eq_singleton [OF assms(2) k] filter_eq_singleton [OF dx kx]
  show "filter (\<lambda>x. f k = f x) ys = filter (\<lambda>x. f k = f x) xs" by simp
qed

lemma mset_replace_last:
  "distinct (map f ys) \<Longrightarrow> r \<in> set ys \<Longrightarrow>
     mset (filter (\<lambda>x. f x \<noteq> f r) ys @ [r]) = mset ys"
proof (induction ys)
  case Nil
  then show ?case by simp
next
  case (Cons y ys)
  show ?case
  proof (cases "y = r")
    case True
    with Cons.prems have "\<forall>x \<in> set ys. f x \<noteq> f r" by (auto simp: image_iff)
    then have "filter (\<lambda>x. f x \<noteq> f r) ys = ys" by (simp add: filter_id_conv)
    with True show ?thesis by simp
  next
    case False
    with Cons.prems have r: "r \<in> set ys" by simp
    with Cons.prems have "f y \<noteq> f r" by (auto simp: image_iff)
    moreover from Cons.prems r have "mset (filter (\<lambda>x. f x \<noteq> f r) ys @ [r]) = mset ys"
      by (intro Cons.IH) simp_all
    ultimately show ?thesis by simp
  qed
qed

lemma sort_rank_inj:
  "date_cell a \<Longrightarrow> date_cell b \<Longrightarrow> sort_rank a = sort_rank b \<Longrightarrow> a = b"
  by (auto simp: date_cell_def split: option.splits cell.splits)

lemma distinct_ranks:
  assumes "distinct (map (\<lambda>r. r c) xs)" and "\<forall>r \<in> set xs. date_cell (r c)"
  shows "distinct (map (\<lambda>r. sort_rank (r c)) xs)"
proof -
  have "inj_on sort_rank (set (map (\<lambda>r. r c) xs))"
    using assms(2) by (auto intro!: inj_onI sort_rank_inj)
  with assms(1) have "distinct (map sort_rank (map (\<lambda>r. r c) xs))"
    by (simp only: distinct_map)
  then show ?thesis by (simp add: comp_def)
qed

end
